theory Spec2Isabelle
  imports Main "HOL-Library.Word"
begin

section \<open>The inference engine as seen from the boundary\<close>

text \<open>
  The boundary wraps an external library (\<^verbatim>\<open>whisper.h\<close>). Its types are modelled as far as
  the two source files use them; its answers are parameters of the model.

  A context handle (\<^verbatim>\<open>void*\<close>, \<^verbatim>\<open>whisper_context*\<close>, \<^verbatim>\<open>jlong\<close>) is a 64-bit address and
  \<open>0\<close> is \<^verbatim>\<open>nullptr\<close>. A \<^verbatim>\<open>const char*\<close> is a \<open>string option\<close>: \<open>None\<close> is the null
  pointer, \<open>Some s\<close> points at the bytes \<open>s\<close>, the end of the list standing for the
  terminating NUL. A sample is the bit pattern of one \<^verbatim>\<open>float\<close>.
\<close>

type_synonym handle = "64 word"
type_synonym sample = "32 word"

record segment =
  seg_text :: "string option"
  seg_t0 :: "64 word"
  seg_t1 :: "64 word"

text \<open>
  The lambda that both variants install as \<^verbatim>\<open>params.progress_callback\<close>, with the two
  fields of the \<^verbatim>\<open>CallbackData\<close> it reads: the host callback and the user data (desktop) or
  the method id (mobile). It forwards a tick only when they are not null.
\<close>

datatype progress_relay = Relay handle handle

record whisper_full_params =
  print_realtime :: bool
  print_progress :: bool
  print_timestamps :: bool
  print_special :: bool
  translate :: bool
  language :: "string option"
  n_threads :: int
  offset_ms :: int
  no_context :: bool
  single_segment :: bool
  progress_callback :: "progress_relay option"

text \<open>The calls into the engine that change it or run it, in the order they are made.\<close>

datatype whisper_call =
    Whisper_init_from_file string bool
  | Whisper_full handle whisper_full_params "sample list" int
  | Whisper_is_multilingual handle
  | Whisper_free handle

text \<open>
  What the platform supplies: the value of
  \<^verbatim>\<open>whisper_full_default_params(WHISPER_SAMPLING_GREEDY)\<close> and of
  \<^verbatim>\<open>std::thread::hardware_concurrency()\<close> (an \<^verbatim>\<open>unsigned\<close>).
\<close>

record platform =
  default_params :: whisper_full_params
  hardware_concurrency :: "32 word"

text \<open>
  The segment list that a run of \<^verbatim>\<open>whisper_full\<close> leaves in the context, and the engine's
  accessors to it.
\<close>

definition whisper_full_n_segments :: "segment list \<Rightarrow> int" where
  "whisper_full_n_segments segs = int (length segs)"

definition whisper_full_get_segment_text :: "segment list \<Rightarrow> int \<Rightarrow> string option" where
  "whisper_full_get_segment_text segs i = seg_text (segs ! nat i)"

definition whisper_full_get_segment_t0 :: "segment list \<Rightarrow> int \<Rightarrow> 64 word" where
  "whisper_full_get_segment_t0 segs i = seg_t0 (segs ! nat i)"

definition whisper_full_get_segment_t1 :: "segment list \<Rightarrow> int \<Rightarrow> 64 word" where
  "whisper_full_get_segment_t1 segs i = seg_t1 (segs ! nat i)"

section \<open>Numbers as text\<close>

text \<open>\<^verbatim>\<open>std::to_string(int)\<close> and the \<^verbatim>\<open>%d\<close> of the log: decimal digits, a minus sign first.\<close>

definition digit_char :: "nat \<Rightarrow> char" where
  "digit_char d = ''0123456789'' ! d"

fun decimal :: "nat \<Rightarrow> string" where
  "decimal n = (if n < 10 then [digit_char n] else decimal (n div 10) @ [digit_char (n mod 10)])"

declare decimal.simps [simp del]

definition to_string_int :: "int \<Rightarrow> string" where
  "to_string_int x = (if x < 0 then ''-'' else '''') @ decimal (nat \<bar>x\<bar>)"

text \<open>
  The times are \<^verbatim>\<open>int64_t\<close> and the source computes \<^verbatim>\<open>t0 * 10.0\<close> in \<^verbatim>\<open>double\<close>: the
  integer is converted to the nearest double and the product is rounded to the nearest
  double again, ties to the even significand. Every value met here is a whole number below
  \<open>2 ^ 67\<close> in size, so a double is represented by the integer it denotes and rounding keeps
  the 53 leading bits.
\<close>

fun bit_count :: "nat \<Rightarrow> nat" where
  "bit_count n = (if n = 0 then 0 else Suc (bit_count (n div 2)))"

declare bit_count.simps [simp del]

definition round_double :: "int \<Rightarrow> int" where
  "round_double x =
     (let a = nat \<bar>x\<bar> in
      if a < 2 ^ 53 then x
      else
        let e = bit_count a - 53;
            q = a div 2 ^ e;
            r = a mod 2 ^ e;
            q' = (if 2 * r > 2 ^ e \<or> (2 * r = 2 ^ e \<and> odd q) then q + 1 else q)
        in sgn x * int (q' * 2 ^ e))"

definition int64_to_double :: "64 word \<Rightarrow> int" where
  "int64_to_double t = round_double (sint t)"

definition times_ten :: "int \<Rightarrow> int" where
  "times_ten d = round_double (d * 10)"

text \<open>
  \<^verbatim>\<open>std::to_string(double)\<close> prints as \<^verbatim>\<open>%f\<close> does in the C locale: the digits of the
  value, a point and six decimals, which are zeros for a whole number.
\<close>

definition to_string_double :: "int \<Rightarrow> string" where
  "to_string_double d = (if d < 0 then ''-'' else '''') @ decimal (nat \<bar>d\<bar>) @ ''.000000''"

section \<open>The result encoder\<close>

text \<open>The \<^verbatim>\<open>switch\<close> on one byte of the text, the same in both variants.\<close>

definition escape_char :: "char \<Rightarrow> string" where
  "escape_char c =
     (if c = CHR 0x22 then [CHR 0x5C, CHR 0x22]
      else if c = CHR 0x5C then [CHR 0x5C, CHR 0x5C]
      else if c = CHR 0x0A then [CHR 0x5C, CHR ''n'']
      else if c = CHR 0x0D then [CHR 0x5C, CHR ''r'']
      else if c = CHR 0x09 then [CHR 0x5C, CHR ''t'']
      else [c])"

text \<open>The loop \<^verbatim>\<open>for (const char* p = text; *p; p++)\<close>: it stops at the first NUL.\<close>

fun escape_loop :: "string \<Rightarrow> string" where
  "escape_loop [] = []"
| "escape_loop (c # p) = (if c = CHR 0x00 then [] else escape_char c @ escape_loop p)"

text \<open>The four appends that write one object, after the text has been escaped.\<close>

definition append_object :: "string \<Rightarrow> string \<Rightarrow> int \<Rightarrow> int \<Rightarrow> string" where
  \<open>append_object jsonResult escapedText startMs endMs =
     jsonResult @ ''{''
       @ (''"text":"'' @ escapedText @ ''",'')
       @ (''"start":'' @ to_string_double startMs @ '','')
       @ (''"end":'' @ to_string_double endMs)
       @ ''}''\<close>

text \<open>
  The segment loop of \<^verbatim>\<open>whisper_wrapper_transcribe\<close> (desktop). A null text leaves the
  escaped text empty.
\<close>

function wrapper_segments_loop :: "int \<Rightarrow> int \<Rightarrow> segment list \<Rightarrow> string \<Rightarrow> string" where
  "wrapper_segments_loop i numSegments segs jsonResult =
     (if i < numSegments then
        let text = whisper_full_get_segment_text segs i;
            t0 = whisper_full_get_segment_t0 segs i;
            t1 = whisper_full_get_segment_t1 segs i;
            startMs = times_ten (int64_to_double t0);
            endMs = times_ten (int64_to_double t1);
            jsonResult1 = (if i > 0 then jsonResult @ '','' else jsonResult);
            escapedText = (case text of None \<Rightarrow> [] | Some p \<Rightarrow> escape_loop p)
        in wrapper_segments_loop (i + 1) numSegments segs
             (append_object jsonResult1 escapedText startMs endMs)
      else jsonResult)"
  by pat_completeness auto
termination
  by (relation "measure (\<lambda>(i, numSegments, segs, jsonResult). nat (numSegments - i))") auto

declare wrapper_segments_loop.simps [simp del]

text \<open>
  The segment loop of \<^verbatim>\<open>transcribeAudio\<close> (mobile). There is no test of the text pointer:
  reading through a null one is undefined, which is the result \<open>None\<close>.
\<close>

function jni_segments_loop :: "int \<Rightarrow> int \<Rightarrow> segment list \<Rightarrow> string \<Rightarrow> string option" where
  "jni_segments_loop i numSegments segs jsonResult =
     (if i < numSegments then
        let text = whisper_full_get_segment_text segs i;
            t0 = whisper_full_get_segment_t0 segs i;
            t1 = whisper_full_get_segment_t1 segs i;
            startMs = times_ten (int64_to_double t0);
            endMs = times_ten (int64_to_double t1);
            jsonResult1 = (if i > 0 then jsonResult @ '','' else jsonResult)
        in (case text of
              None \<Rightarrow> None
            | Some p \<Rightarrow>
                jni_segments_loop (i + 1) numSegments segs
                  (append_object jsonResult1 (escape_loop p) startMs endMs))
      else Some jsonResult)"
  by pat_completeness auto
termination
  by (relation "measure (\<lambda>(i, numSegments, segs, jsonResult). nat (numSegments - i))") auto

declare jni_segments_loop.simps [simp del]

section \<open>The desktop variant: \<^verbatim>\<open>whisper_wrapper.cpp\<close>\<close>

text \<open>
  The state outside the context: the engine calls made so far, and the static
  \<^verbatim>\<open>g_last_error\<close>, which starts empty. The mutex orders concurrent accesses; one thread
  is modelled.
\<close>

record engine_world =
  engine_trace :: "whisper_call list"

record wrapper_world = engine_world +
  g_last_error :: string

definition initial_wrapper_world :: wrapper_world where
  "initial_wrapper_world = \<lparr>engine_trace = [], g_last_error = ''''\<rparr>"

definition set_error :: "string \<Rightarrow> wrapper_world \<Rightarrow> wrapper_world" where
  "set_error error w = w\<lparr>g_last_error := error\<rparr>"

text \<open>
  \<open>loaded\<close> is what \<^verbatim>\<open>whisper_init_from_file_with_params\<close> answers if it is called: the
  context, or \<open>0\<close>.
\<close>

definition whisper_wrapper_init ::
  "handle \<Rightarrow> string option \<Rightarrow> wrapper_world \<Rightarrow> handle \<times> wrapper_world" where
  "whisper_wrapper_init loaded model_path w =
     (case model_path of
        None \<Rightarrow> (0, set_error ''Model path is null'' w)
      | Some path \<Rightarrow>
          let w1 = w\<lparr>engine_trace := engine_trace w @ [Whisper_init_from_file path False]\<rparr>
          in if loaded = 0
             then (0, set_error (''Failed to load model from: '' @ path) w1)
             else (loaded, w1))"

definition whisper_wrapper_free :: "handle \<Rightarrow> wrapper_world \<Rightarrow> wrapper_world" where
  "whisper_wrapper_free ctx w =
     (if ctx \<noteq> 0 then w\<lparr>engine_trace := engine_trace w @ [Whisper_free ctx]\<rparr> else w)"

text \<open>The parameters that \<^verbatim>\<open>whisper_wrapper_transcribe\<close> hands to \<^verbatim>\<open>whisper_full\<close>.\<close>

definition wrapper_params ::
  "platform \<Rightarrow> string option \<Rightarrow> handle \<Rightarrow> handle \<Rightarrow> whisper_full_params" where
  "wrapper_params pf lang callback user_data =
     (let params = (default_params pf)
            \<lparr>print_realtime := False,
             print_progress := False,
             print_timestamps := True,
             print_special := False,
             translate := False,
             language := (case lang of Some l \<Rightarrow> Some l | None \<Rightarrow> Some ''en''),
             n_threads := min 4 (sint (hardware_concurrency pf)),
             offset_ms := 0,
             no_context := True,
             single_segment := False\<rparr>
      in if callback \<noteq> 0
         then params\<lparr>progress_callback := Some (Relay callback user_data)\<rparr>
         else params)"

text \<open>
  \<open>answer\<close> is what the engine does if \<^verbatim>\<open>whisper_full\<close> is called: its result code and
  the segments it leaves in the context. The result is the returned \<^verbatim>\<open>const char*\<close>.
\<close>

definition whisper_wrapper_transcribe ::
  "platform \<Rightarrow> int \<times> segment list \<Rightarrow> handle \<Rightarrow> sample list option \<Rightarrow> int \<Rightarrow>
     string option \<Rightarrow> handle \<Rightarrow> handle \<Rightarrow> wrapper_world \<Rightarrow> string option \<times> wrapper_world" where
  "whisper_wrapper_transcribe pf answer ctx audio_data n_samples lang callback user_data w =
     (if ctx = 0 then (None, set_error ''Context is null'' w)
      else
        case audio_data of
          None \<Rightarrow> (None, set_error ''Invalid audio data'' w)
        | Some samples \<Rightarrow>
            if n_samples \<le> 0 then (None, set_error ''Invalid audio data'' w)
            else
              let params = wrapper_params pf lang callback user_data;
                  w1 = w\<lparr>engine_trace :=
                         engine_trace w @ [Whisper_full ctx params samples n_samples]\<rparr>;
                  result = fst answer;
                  segs = snd answer
              in if result \<noteq> 0
                 then (None,
                       set_error (''Transcription failed with code: '' @ to_string_int result) w1)
                 else
                   let numSegments = whisper_full_n_segments segs;
                       jsonResult = wrapper_segments_loop 0 numSegments segs ''[''
                   in (Some (jsonResult @ '']''), w1))"

text \<open>\<open>answer\<close> is what \<^verbatim>\<open>whisper_is_multilingual\<close> says if it is called.\<close>

definition whisper_wrapper_is_multilingual ::
  "bool \<Rightarrow> handle \<Rightarrow> wrapper_world \<Rightarrow> int \<times> wrapper_world" where
  "whisper_wrapper_is_multilingual answer ctx w =
     (if ctx = 0 then (0, w)
      else ((if answer then 1 else 0),
            w\<lparr>engine_trace := engine_trace w @ [Whisper_is_multilingual ctx]\<rparr>))"

text \<open>\<^verbatim>\<open>g_last_error.c_str()\<close>: a pointer into the string, which is never null.\<close>

definition whisper_wrapper_get_last_error :: "wrapper_world \<Rightarrow> string option" where
  "whisper_wrapper_get_last_error w = Some (g_last_error w)"

section \<open>The mobile variant: \<^verbatim>\<open>whisper_jni.cpp\<close>\<close>

text \<open>
  This file keeps no error string. What it leaves outside the context is the engine calls
  and the lines it writes to the system log.
\<close>

datatype log_priority = ANDROID_LOG_INFO | ANDROID_LOG_ERROR

record jni_world = engine_world +
  logcat :: "(log_priority \<times> string) list"

definition initial_jni_world :: jni_world where
  "initial_jni_world = \<lparr>engine_trace = [], logcat = []\<rparr>"

definition LOGI :: "string \<Rightarrow> jni_world \<Rightarrow> jni_world" where
  "LOGI msg w = w\<lparr>logcat := logcat w @ [(ANDROID_LOG_INFO, msg)]\<rparr>"

definition LOGE :: "string \<Rightarrow> jni_world \<Rightarrow> jni_world" where
  "LOGE msg w = w\<lparr>logcat := logcat w @ [(ANDROID_LOG_ERROR, msg)]\<rparr>"

text \<open>
  A \<^verbatim>\<open>jstring\<close> is a reference to a string, \<open>None\<close> the null reference.
  \<^verbatim>\<open>NewStringUTF\<close> makes a string of the bytes it is given; that the machine has no memory
  left for it is not modelled.
\<close>

definition NewStringUTF :: "string \<Rightarrow> string option" where
  "NewStringUTF bytes = Some bytes"

text \<open>
  The code passes its array and string arguments to the JNI accessors untested, and JNI
  leaves a null reference there undefined: that and the read through a null text are
  \<open>Jni_undefined\<close>.
\<close>

datatype jni_outcome = Jni_undefined | Jni_returned "string option"

definition jni_params ::
  "platform \<Rightarrow> string \<Rightarrow> handle \<Rightarrow> handle \<Rightarrow> whisper_full_params" where
  "jni_params pf lang callback method =
     (default_params pf)
       \<lparr>print_realtime := False,
        print_progress := False,
        print_timestamps := True,
        print_special := False,
        translate := False,
        language := Some lang,
        n_threads := min 4 (sint (hardware_concurrency pf)),
        offset_ms := 0,
        no_context := True,
        single_segment := False,
        progress_callback := Some (Relay callback method)\<rparr>"

text \<open>
  \<open>answer\<close> is as above; \<open>method_id\<close> is what \<^verbatim>\<open>GetMethodID\<close> answers for
  \<^verbatim>\<open>onProgress\<close> if it is asked.
\<close>

definition transcribeAudio ::
  "platform \<Rightarrow> int \<times> segment list \<Rightarrow> handle \<Rightarrow> handle \<Rightarrow> sample list option \<Rightarrow>
     string option \<Rightarrow> handle \<Rightarrow> jni_world \<Rightarrow> jni_outcome \<times> jni_world" where
  "transcribeAudio pf answer method_id contextPtr audioData lang progressCallback w =
     (if contextPtr = 0 then (Jni_returned (NewStringUTF ''''), LOGE ''Context is null'' w)
      else
        case audioData of
          None \<Rightarrow> (Jni_undefined, w)
        | Some audioPtr \<Rightarrow>
            let audioLen = int (length audioPtr);
                w1 = LOGI (''Transcribing '' @ to_string_int audioLen @ '' samples'') w
            in (case lang of
                 None \<Rightarrow> (Jni_undefined, w1)
               | Some l \<Rightarrow>
                   let onProgressMethod = (if progressCallback \<noteq> 0 then method_id else 0);
                       params = jni_params pf l progressCallback onProgressMethod;
                       w2 = w1\<lparr>engine_trace :=
                              engine_trace w1 @ [Whisper_full contextPtr params audioPtr audioLen]\<rparr>;
                       result = fst answer;
                       segs = snd answer
                   in if result \<noteq> 0
                      then (Jni_returned (NewStringUTF ''''),
                            LOGE (''Transcription failed with code: '' @ to_string_int result) w2)
                      else
                        let numSegments = whisper_full_n_segments segs
                        in (case jni_segments_loop 0 numSegments segs ''['' of
                              None \<Rightarrow> (Jni_undefined, w2)
                            | Some jsonResult \<Rightarrow>
                                (Jni_returned (NewStringUTF (jsonResult @ '']'')),
                                 LOGI (''Transcription complete: '' @ to_string_int numSegments
                                       @ '' segments'') w2))))"

section \<open>What the specification compares the code with\<close>

text \<open>
  The inverse that the specification names: reading from the left, each of the five
  two-character sequences is replaced by the character it stands for and every other
  character is kept.
\<close>

fun unescape_five :: "string \<Rightarrow> string" where
  "unescape_five (b # c # cs) =
     (if b = CHR 0x5C \<and> c = CHR 0x22 then CHR 0x22 # unescape_five cs
      else if b = CHR 0x5C \<and> c = CHR 0x5C then CHR 0x5C # unescape_five cs
      else if b = CHR 0x5C \<and> c = CHR ''n'' then CHR 0x0A # unescape_five cs
      else if b = CHR 0x5C \<and> c = CHR ''r'' then CHR 0x0D # unescape_five cs
      else if b = CHR 0x5C \<and> c = CHR ''t'' then CHR 0x09 # unescape_five cs
      else b # unescape_five (c # cs))"
| "unescape_five cs = cs"

text \<open>The object that one pass of the loop writes for a segment, without a separator.\<close>

definition segment_object :: "segment \<Rightarrow> string" where
  "segment_object s =
     append_object []
       (case seg_text s of None \<Rightarrow> [] | Some p \<Rightarrow> escape_loop p)
       (times_ten (int64_to_double (seg_t0 s)))
       (times_ten (int64_to_double (seg_t1 s)))"

text \<open>
  The array of the exchange format: one object per segment in the engine's order, a comma
  before every object but the first, between brackets.
\<close>

definition json_array :: "segment list \<Rightarrow> string" where
  "json_array segs =
     ''['' @ concat (map (\<lambda>j. (if 0 < j then '','' else '''') @ segment_object (segs ! j))
                      [0..<length segs]) @ '']''"

section \<open>Sequences of desktop calls\<close>

text \<open>A call of the desktop boundary with its arguments and the engine's answer.\<close>

datatype wrapper_op =
    Op_init handle "string option"
  | Op_transcribe "int \<times> segment list" handle "sample list option" int "string option"
      handle handle
  | Op_is_multilingual bool handle

datatype wrapper_ret = Ret_handle handle | Ret_string "string option" | Ret_int int

fun wrapper_step ::
  "platform \<Rightarrow> wrapper_op \<Rightarrow> wrapper_world \<Rightarrow> wrapper_ret \<times> wrapper_world" where
  "wrapper_step pf (Op_init loaded model_path) w =
     (let (r, w') = whisper_wrapper_init loaded model_path w in (Ret_handle r, w'))"
| "wrapper_step pf (Op_transcribe answer ctx audio_data n_samples lang callback user_data) w =
     (let (r, w') =
            whisper_wrapper_transcribe pf answer ctx audio_data n_samples lang callback
              user_data w
      in (Ret_string r, w'))"
| "wrapper_step pf (Op_is_multilingual answer ctx) w =
     (let (r, w') = whisper_wrapper_is_multilingual answer ctx w in (Ret_int r, w'))"

fun wrapper_run ::
  "platform \<Rightarrow> wrapper_op list \<Rightarrow> wrapper_world \<Rightarrow> wrapper_ret list \<times> wrapper_world" where
  "wrapper_run pf [] w = ([], w)"
| "wrapper_run pf (op # ops) w =
     (let (r, w1) = wrapper_step pf op w;
          (rs, w2) = wrapper_run pf ops w1
      in (r # rs, w2))"

text \<open>The failure sentinel of \<^verbatim>\<open>init\<close> and of \<^verbatim>\<open>transcribe\<close>: a null pointer.\<close>

fun is_null_return :: "wrapper_ret \<Rightarrow> bool" where
  "is_null_return (Ret_handle h) = (h = 0)"
| "is_null_return (Ret_string s) = (s = None)"
| "is_null_return (Ret_int i) = False"

text \<open>The message that belongs to a call of \<^verbatim>\<open>init\<close> or \<^verbatim>\<open>transcribe\<close> when it fails.\<close>

fun failure_message :: "wrapper_op \<Rightarrow> string" where
  "failure_message (Op_init loaded None) = ''Model path is null''"
| "failure_message (Op_init loaded (Some path)) = ''Failed to load model from: '' @ path"
| "failure_message (Op_transcribe answer ctx audio_data n_samples lang callback user_data) =
     (if ctx = 0 then ''Context is null''
      else if audio_data = None \<or> n_samples \<le> 0 then ''Invalid audio data''
      else ''Transcription failed with code: '' @ to_string_int (fst answer))"
| "failure_message (Op_is_multilingual answer ctx) = ''''"

text \<open>
  The message of the most recent null return in a history of calls and returns, \<open>cur\<close> if
  there is none.
\<close>

fun last_message :: "string \<Rightarrow> (wrapper_op \<times> wrapper_ret) list \<Rightarrow> string" where
  "last_message cur [] = cur"
| "last_message cur ((op, r) # rest) =
     last_message (if is_null_return r then failure_message op else cur) rest"

section \<open>Concrete inputs\<close>

definition example_platform :: platform where
  "example_platform =
     \<lparr>default_params =
        \<lparr>print_realtime = True, print_progress = True, print_timestamps = False,
         print_special = False, translate = False, language = Some ''auto'', n_threads = 1,
         offset_ms = 0, no_context = False, single_segment = False, progress_callback = None\<rparr>,
      hardware_concurrency = 8\<rparr>"

definition example_segments :: "segment list" where
  \<open>example_segments =
     [\<lparr>seg_text = Some '' Hello'', seg_t0 = 0, seg_t1 = 150\<rparr>,
      \<lparr>seg_text = Some '' "world"'', seg_t0 = 150, seg_t1 = 420\<rparr>]\<close>

definition example_audio :: "sample list" where
  "example_audio = [0, 0, 0]"

section \<open>Lemmas on the encoder\<close>

lemma unescape_five_plain:
  "b \<noteq> CHR 0x5C \<Longrightarrow> unescape_five (b # cs) = b # unescape_five cs"
  by (cases cs) simp_all

lemma escape_loop_concat:
  "CHR 0x00 \<notin> set s \<Longrightarrow> escape_loop s = concat (map escape_char s)"
  by (induction s) auto

lemma unescape_escape_char:
  "unescape_five (escape_char c @ rest) = c # unescape_five rest"
  by (simp add: escape_char_def unescape_five_plain)

lemma unescape_escape_loop:
  "CHR 0x00 \<notin> set s \<Longrightarrow> unescape_five (escape_loop s) = s"
  by (induction s) (auto simp: unescape_escape_char)

lemma append_object_acc:
  "append_object acc e a b = acc @ append_object [] e a b"
  by (simp add: append_object_def)

text \<open>The desktop loop, started at any index with any text written so far.\<close>

lemma wrapper_loop_objects:
  "i \<le> length segs \<Longrightarrow>
   wrapper_segments_loop (int i) (int (length segs)) segs acc =
     acc @ concat (map (\<lambda>j. (if 0 < j then '','' else '''') @ segment_object (segs ! j))
                    [i..<length segs])"
proof (induction "length segs - i" arbitrary: i acc)
  case 0
  then show ?case by (simp add: wrapper_segments_loop.simps)
next
  case (Suc k)
  then have lt: "i < length segs" and k: "k = length segs - Suc i" by auto
  have step: "wrapper_segments_loop (int i) (int (length segs)) segs acc =
      wrapper_segments_loop (int (Suc i)) (int (length segs)) segs
        ((if 0 < i then acc @ '','' else acc) @ segment_object (segs ! i))"
    using lt
    by (subst wrapper_segments_loop.simps)
       (simp add: Let_def segment_object_def whisper_full_get_segment_text_def
          whisper_full_get_segment_t0_def whisper_full_get_segment_t1_def
          append_object_acc [of "acc @ '',''"] append_object_acc [of acc] add.commute)
  show ?case
    using Suc.hyps(1) [OF k, of "(if 0 < i then acc @ '','' else acc) @ segment_object (segs ! i)"] lt
    by (simp add: step upt_conv_Cons)
qed

text \<open>The mobile loop: the same text when no segment text is null, and no text otherwise.\<close>

lemma jni_loop_objects:
  "i \<le> length segs \<Longrightarrow> \<forall>s \<in> set segs. seg_text s \<noteq> None \<Longrightarrow>
   jni_segments_loop (int i) (int (length segs)) segs acc =
     Some (acc @ concat (map (\<lambda>j. (if 0 < j then '','' else '''') @ segment_object (segs ! j))
                    [i..<length segs]))"
proof (induction "length segs - i" arbitrary: i acc)
  case 0
  then show ?case by (simp add: jni_segments_loop.simps)
next
  case (Suc k)
  then have lt: "i < length segs" and k: "k = length segs - Suc i" by auto
  from lt Suc.prems(2) obtain p where p: "seg_text (segs ! i) = Some p"
    by (metis nth_mem not_None_eq)
  have step: "jni_segments_loop (int i) (int (length segs)) segs acc =
      jni_segments_loop (int (Suc i)) (int (length segs)) segs
        ((if 0 < i then acc @ '','' else acc) @ segment_object (segs ! i))"
    using lt p
    by (subst jni_segments_loop.simps)
       (simp add: Let_def segment_object_def whisper_full_get_segment_text_def
          whisper_full_get_segment_t0_def whisper_full_get_segment_t1_def
          append_object_acc [of "acc @ '',''"] append_object_acc [of acc] add.commute)
  show ?case
    using Suc.hyps(1) [OF k _ Suc.prems(2),
        of "(if 0 < i then acc @ '','' else acc) @ segment_object (segs ! i)"] lt
    by (simp add: step upt_conv_Cons)
qed


lemma wrapper_loop_json_array:
  "wrapper_segments_loop 0 (whisper_full_n_segments segs) segs ''['' @ '']'' = json_array segs"
  using wrapper_loop_objects [of 0 segs "''[''"]
  by (simp add: whisper_full_n_segments_def json_array_def)

lemma jni_loop_json_array:
  "(\<forall>s \<in> set segs. seg_text s \<noteq> None) \<Longrightarrow>
   jni_segments_loop 0 (whisper_full_n_segments segs) segs ''['' =
     Some (butlast (json_array segs))"
  using jni_loop_objects [of 0 segs "''[''"]
  by (simp add: whisper_full_n_segments_def json_array_def butlast_append)




section \<open>Lemmas on the times\<close>

lemma bit_count_range:
  "2 ^ k \<le> n \<Longrightarrow> n < 2 ^ Suc k \<Longrightarrow> bit_count n = Suc k"
proof (induction k arbitrary: n)
  case 0
  then have "n = 1" by simp
  then show ?case by (simp add: bit_count.simps)
next
  case (Suc k)
  then have "2 ^ k \<le> n div 2" and "n div 2 < 2 ^ Suc k" and "n \<noteq> 0"
    by auto
  with Suc.IH [of "n div 2"] show ?case
    by (subst bit_count.simps) simp
qed

lemma round_double_small:
  "\<bar>x\<bar> < 2 ^ 53 \<Longrightarrow> round_double x = x"
  by (simp add: round_double_def Let_def nat_less_iff)

lemma round_double_even:
  assumes "2 ^ 53 \<le> \<bar>x\<bar>" and "\<bar>x\<bar> < 2 ^ 54" and "even x"
  shows "round_double x = x"
proof -
  define a where "a = nat \<bar>x\<bar>"
  have lo: "2 ^ 53 \<le> a" and hi: "a < 2 ^ Suc 53"
    using assms(1,2) by (simp_all add: a_def nat_le_iff nat_less_iff le_nat_iff)
  have bits: "bit_count a = 54"
    using bit_count_range [OF lo hi] by simp
  have ev: "even a"
    using assms(3) by (simp add: a_def even_nat_iff)
  then have r: "a mod 2 = 0" and q: "a div 2 * 2 = a"
    by auto
  have q': "int (a div 2) * 2 = int a"
    using q by (metis of_nat_mult of_nat_numeral)
  have "round_double x = sgn x * int a"
    using lo by (simp add: round_double_def Let_def a_def [symmetric] bits r q')
  also have "\<dots> = x"
    by (simp add: a_def sgn_if)
  finally show ?thesis .
qed

lemma times_ten_exact:
  assumes "\<bar>sint t\<bar> \<le> 1801439850948198"
  shows "times_ten (int64_to_double t) = sint t * 10"
proof -
  have conv: "int64_to_double t = sint t"
    using assms by (simp add: int64_to_double_def round_double_small)
  show ?thesis
  proof (cases "\<bar>sint t * 10\<bar> < 2 ^ 53")
    case True
    then show ?thesis by (simp add: times_ten_def conv round_double_small)
  next
    case False
    then have "2 ^ 53 \<le> \<bar>sint t * 10\<bar>" by simp
    moreover have "\<bar>sint t * 10\<bar> < 2 ^ 54" using assms by simp
    ultimately show ?thesis by (simp add: times_ten_def conv round_double_even)
  qed
qed

lemma to_string_double_int:
  "to_string_double d = to_string_int d @ ''.000000''"
  by (simp add: to_string_double_def to_string_int_def)

section \<open>Lemmas on the last error\<close>

lemma failure_message_nonempty:
  "is_null_return (fst (wrapper_step pf op w)) \<Longrightarrow> failure_message op \<noteq> []"
proof (cases op)
  case (Op_init loaded model_path)
  then show ?thesis by (cases model_path) simp_all
next
  case (Op_transcribe answer ctx audio_data n_samples lang callback user_data)
  then show ?thesis by simp
next
  case (Op_is_multilingual answer ctx)
  assume "is_null_return (fst (wrapper_step pf op w))"
  with Op_is_multilingual show ?thesis by (simp add: split_beta)
qed

lemma init_last_error:
  "g_last_error (snd (whisper_wrapper_init loaded model_path w)) =
     (if fst (whisper_wrapper_init loaded model_path w) = 0
      then failure_message (Op_init loaded model_path) else g_last_error w)"
  by (cases model_path) (simp_all add: whisper_wrapper_init_def set_error_def Let_def)

lemma transcribe_last_error:
  "g_last_error (snd (whisper_wrapper_transcribe pf answer ctx audio_data n_samples lang
                       callback user_data w)) =
     (if fst (whisper_wrapper_transcribe pf answer ctx audio_data n_samples lang callback
               user_data w) = None
      then failure_message (Op_transcribe answer ctx audio_data n_samples lang callback
                              user_data)
      else g_last_error w)"
  by (cases audio_data) (simp_all add: whisper_wrapper_transcribe_def set_error_def Let_def)

lemma is_multilingual_last_error:
  "g_last_error (snd (whisper_wrapper_is_multilingual answer ctx w)) = g_last_error w"
  by (simp add: whisper_wrapper_is_multilingual_def)

lemma wrapper_step_last_error:
  "g_last_error (snd (wrapper_step pf op w)) =
     (if is_null_return (fst (wrapper_step pf op w)) then failure_message op
      else g_last_error w)"
proof (cases op)
  case (Op_init loaded model_path)
  then show ?thesis
    using init_last_error [of loaded model_path w] by (simp add: split_beta)
next
  case (Op_transcribe answer ctx audio_data n_samples lang callback user_data)
  then show ?thesis
    using transcribe_last_error [of pf answer ctx audio_data n_samples lang callback user_data w]
    by (simp add: split_beta)
next
  case (Op_is_multilingual answer ctx)
  then show ?thesis
    using is_multilingual_last_error [of answer ctx w] by (simp add: split_beta)
qed

lemma wrapper_run_last_error:
  "g_last_error (snd (wrapper_run pf ops w)) =
     last_message (g_last_error w) (zip ops (fst (wrapper_run pf ops w)))"
proof (induction ops arbitrary: w)
  case Nil
  show ?case by simp
next
  case (Cons op ops)
  show ?case
    using Cons.IH [of "snd (wrapper_step pf op w)"]
    by (simp add: split_beta wrapper_step_last_error)
qed

lemma last_message_unchanged:
  "\<forall>r \<in> set rets. \<not> is_null_return r \<Longrightarrow> last_message cur (zip ops rets) = cur"
proof (induction ops arbitrary: rets cur)
  case Nil
  show ?case by simp
next
  case (Cons op ops)
  then show ?case by (cases rets) simp_all
qed

lemma wrapper_run_failed_nonempty:
  "\<exists>r \<in> set (fst (wrapper_run pf ops w)). is_null_return r \<Longrightarrow>
   g_last_error (snd (wrapper_run pf ops w)) \<noteq> []"
proof (induction ops arbitrary: w)
  case Nil
  then show ?case by simp
next
  case (Cons op ops)
  let ?w1 = "snd (wrapper_step pf op w)"
  show ?case
  proof (cases "\<exists>r \<in> set (fst (wrapper_run pf ops ?w1)). is_null_return r")
    case True
    with Cons.IH [of ?w1] show ?thesis by (simp add: split_beta)
  next
    case False
    with Cons.prems have failed: "is_null_return (fst (wrapper_step pf op w))"
      by (simp add: split_beta)
    have "g_last_error (snd (wrapper_run pf ops ?w1)) = g_last_error ?w1"
      using False wrapper_run_last_error [of pf ops ?w1]
      by (simp add: last_message_unchanged)
    also have "\<dots> = failure_message op"
      using failed by (simp add: wrapper_step_last_error)
    finally show ?thesis
      using failure_message_nonempty [OF failed] by (simp add: split_beta)
  qed
qed

section \<open>The claims\<close>

text \<open>
  C1, as amended. With a null context handle the desktop \<^verbatim>\<open>transcribe\<close> returns null,
  sets the last error to ``Context is null'' and does not call the engine, whatever the
  audio buffer, the length, the language and the callback are. The mobile
  \<^verbatim>\<open>transcribeAudio\<close> returns the empty string there and writes the same words to the log
  as an error; it does not call the engine either.
\<close>

theorem transcribe_null_context:
  "fst (whisper_wrapper_transcribe pf answer 0 audio_data n_samples lang callback user_data w)
     = None
   \<and> whisper_wrapper_get_last_error
       (snd (whisper_wrapper_transcribe pf answer 0 audio_data n_samples lang callback
               user_data w)) = Some ''Context is null''
   \<and> engine_trace
       (snd (whisper_wrapper_transcribe pf answer 0 audio_data n_samples lang callback
               user_data w)) = engine_trace w
   \<and> transcribeAudio pf answer method_id 0 audioData lang' progressCallback jw =
       (Jni_returned (Some ''''),
        jw\<lparr>logcat := logcat jw @ [(ANDROID_LOG_ERROR, ''Context is null'')]\<rparr>)"
  by (simp add: whisper_wrapper_transcribe_def whisper_wrapper_get_last_error_def
        set_error_def transcribeAudio_def NewStringUTF_def LOGE_def)

theorem transcribe_null_context_witness:
  "fst (whisper_wrapper_transcribe example_platform (0, example_segments) 0
          (Some example_audio) 3 (Some ''en'') 5 6 initial_wrapper_world) = None
   \<and> whisper_wrapper_get_last_error
       (snd (whisper_wrapper_transcribe example_platform (0, example_segments) 0
               (Some example_audio) 3 (Some ''en'') 5 6 initial_wrapper_world))
       = Some ''Context is null''"
  using transcribe_null_context [of example_platform "(0, example_segments)"
          "Some example_audio" 3 "Some ''en''" 5 6 initial_wrapper_world]
  by simp

text \<open>
  C1 as stated fails on the mobile variant: with a null context and a good buffer it
  returns a string, the empty one, and not the null reference.
\<close>

theorem transcribe_null_context_counterexample:
  "fst (transcribeAudio example_platform (0, example_segments) 7 0 (Some example_audio)
          (Some ''en'') 0 initial_jni_world) = Jni_returned (Some '''')
   \<and> fst (transcribeAudio example_platform (0, example_segments) 7 0 (Some example_audio)
          (Some ''en'') 0 initial_jni_world) \<noteq> Jni_returned None"
  by (simp add: transcribeAudio_def NewStringUTF_def)

text \<open>
  C2, as amended. With a context that is not null and an audio pointer that is null or a
  sample count of zero or less, the desktop \<^verbatim>\<open>transcribe\<close> returns null, sets the last
  error to ``Invalid audio data'' and does not call the engine.
\<close>

theorem transcribe_invalid_audio:
  assumes "ctx \<noteq> 0" and "audio_data = None \<or> n_samples \<le> 0"
  shows "fst (whisper_wrapper_transcribe pf answer ctx audio_data n_samples lang callback
                user_data w) = None
         \<and> whisper_wrapper_get_last_error
             (snd (whisper_wrapper_transcribe pf answer ctx audio_data n_samples lang callback
                     user_data w)) = Some ''Invalid audio data''
         \<and> engine_trace
             (snd (whisper_wrapper_transcribe pf answer ctx audio_data n_samples lang callback
                     user_data w)) = engine_trace w"
  using assms
  by (cases audio_data)
     (auto simp: whisper_wrapper_transcribe_def whisper_wrapper_get_last_error_def
        set_error_def)

theorem transcribe_invalid_audio_witness:
  "(1 :: handle) \<noteq> 0 \<and> (Some [] = (None :: sample list option) \<or> (0 :: int) \<le> 0)
   \<and> whisper_wrapper_transcribe example_platform (0, example_segments) 1 (Some []) 0
       (Some ''en'') 0 0 initial_wrapper_world =
       (None, \<lparr>engine_trace = [], g_last_error = ''Invalid audio data''\<rparr>)"
proof -
  have h1: "(1 :: handle) \<noteq> 0" by simp
  have h2: "Some [] = (None :: sample list option) \<or> (0 :: int) \<le> 0" by simp
  show ?thesis
    using h1 h2
      transcribe_invalid_audio [OF h1 h2, of example_platform "(0, example_segments)"
        "Some ''en''" 0 0 initial_wrapper_world]
    by (simp add: whisper_wrapper_transcribe_def set_error_def initial_wrapper_world_def)
qed

text \<open>
  C2 as stated fails on the mobile variant: with a context that is not null and a buffer of
  length zero it calls the engine on the empty buffer and returns what the engine's
  segments encode to, here the empty array.
\<close>

theorem transcribe_invalid_audio_counterexample:
  "transcribeAudio example_platform (0, []) 7 1 (Some []) (Some ''en'') 0 initial_jni_world =
     (Jni_returned (Some ''[]''),
      \<lparr>engine_trace = [Whisper_full 1 (jni_params example_platform ''en'' 0 0) [] 0],
       logcat = [(ANDROID_LOG_INFO, ''Transcribing 0 samples''),
                 (ANDROID_LOG_INFO, ''Transcription complete: 0 segments'')]\<rparr>)"
  by (simp add: transcribeAudio_def NewStringUTF_def LOGI_def initial_jni_world_def
        whisper_full_n_segments_def jni_segments_loop.simps to_string_int_def decimal.simps
        digit_char_def)



text \<open>
  C4. The encoder maps the quote, the backslash, the newline, the carriage return and the
  tab to a backslash followed by \<open>"\<close>, \<open>\\<close>, \<open>n\<close>, \<open>r\<close> and \<open>t\<close>, and every other byte
  to itself. For a text without a NUL, as every C string is, the escaped text is the
  concatenation of these, and un-escaping the five sequences gives the text back.
\<close>

theorem escape_round_trip:
  "escape_char (CHR 0x22) = [CHR 0x5C, CHR 0x22]
   \<and> escape_char (CHR 0x5C) = [CHR 0x5C, CHR 0x5C]
   \<and> escape_char (CHR 0x0A) = [CHR 0x5C, CHR ''n'']
   \<and> escape_char (CHR 0x0D) = [CHR 0x5C, CHR ''r'']
   \<and> escape_char (CHR 0x09) = [CHR 0x5C, CHR ''t'']
   \<and> (c \<notin> {CHR 0x22, CHR 0x5C, CHR 0x0A, CHR 0x0D, CHR 0x09} \<longrightarrow> escape_char c = [c])
   \<and> (CHR 0x00 \<notin> set s \<longrightarrow>
        escape_loop s = concat (map escape_char s) \<and> unescape_five (escape_loop s) = s)"
proof -
  have round_trip: "CHR 0x00 \<notin> set s \<longrightarrow>
      escape_loop s = concat (map escape_char s) \<and> unescape_five (escape_loop s) = s"
    using escape_loop_concat [of s] unescape_escape_loop [of s] by blast
  show ?thesis
    by (rule conjI, simp add: escape_char_def)+ (rule round_trip)
qed

theorem escape_round_trip_witness:
  "CHR 0x07 \<notin> {CHR 0x22, CHR 0x5C, CHR 0x0A, CHR 0x0D, CHR 0x09}
   \<and> escape_char (CHR 0x07) = [CHR 0x07]
   \<and> CHR 0x00 \<notin> set [CHR ''a'', CHR 0x22, CHR 0x5C, CHR 0x0A, CHR 0x0D, CHR 0x09, CHR 0x07,
                       CHR ''n'']
   \<and> escape_loop [CHR ''a'', CHR 0x22, CHR 0x5C, CHR 0x0A, CHR 0x0D, CHR 0x09, CHR 0x07,
                   CHR ''n''] =
       [CHR ''a'', CHR 0x5C, CHR 0x22, CHR 0x5C, CHR 0x5C, CHR 0x5C, CHR ''n'', CHR 0x5C,
        CHR ''r'', CHR 0x5C, CHR ''t'', CHR 0x07, CHR ''n'']
   \<and> unescape_five (escape_loop [CHR ''a'', CHR 0x22, CHR 0x5C, CHR 0x0A, CHR 0x0D,
                                   CHR 0x09, CHR 0x07, CHR ''n'']) =
       [CHR ''a'', CHR 0x22, CHR 0x5C, CHR 0x0A, CHR 0x0D, CHR 0x09, CHR 0x07, CHR ''n'']"
proof -
  have h1: "CHR 0x07 \<notin> {CHR 0x22, CHR 0x5C, CHR 0x0A, CHR 0x0D, CHR 0x09}" by simp
  have h2: "CHR 0x00 \<notin> set [CHR ''a'', CHR 0x22, CHR 0x5C, CHR 0x0A, CHR 0x0D, CHR 0x09,
                              CHR 0x07, CHR ''n'']" by simp
  show ?thesis
    using h1 h2
      escape_round_trip [of "CHR 0x07" "[CHR ''a'', CHR 0x22, CHR 0x5C, CHR 0x0A, CHR 0x0D,
        CHR 0x09, CHR 0x07, CHR ''n'']"]
    by (simp add: escape_char_def)
qed

text \<open>
  C5, as amended. When the engine's result code is not zero, the desktop \<^verbatim>\<open>transcribe\<close>
  returns null and sets the last error to ``Transcription failed with code: '' followed by
  the code in decimal; the mobile \<^verbatim>\<open>transcribeAudio\<close> returns the empty string and
  writes the same message to the log as an error. Neither result holds any text of a
  segment.
\<close>

theorem transcribe_engine_failure:
  assumes "result \<noteq> 0" and "ctx \<noteq> 0" and "0 < n_samples"
  shows "fst (whisper_wrapper_transcribe pf (result, segs) ctx (Some samples) n_samples lang
                callback user_data w) = None
         \<and> whisper_wrapper_get_last_error
             (snd (whisper_wrapper_transcribe pf (result, segs) ctx (Some samples) n_samples
                     lang callback user_data w))
             = Some (''Transcription failed with code: '' @ to_string_int result)
         \<and> fst (transcribeAudio pf (result, segs) method_id ctx (Some samples) (Some l)
                   progressCallback jw) = Jni_returned (Some '''')
         \<and> logcat (snd (transcribeAudio pf (result, segs) method_id ctx (Some samples) (Some l)
                           progressCallback jw))
             = logcat jw
               @ [(ANDROID_LOG_INFO,
                   ''Transcribing '' @ to_string_int (int (length samples)) @ '' samples''),
                  (ANDROID_LOG_ERROR,
                   ''Transcription failed with code: '' @ to_string_int result)]"
  using assms
  by (simp add: whisper_wrapper_transcribe_def whisper_wrapper_get_last_error_def
        set_error_def transcribeAudio_def NewStringUTF_def LOGE_def LOGI_def Let_def)

theorem transcribe_engine_failure_witness:
  "(-7 :: int) \<noteq> 0 \<and> (1 :: handle) \<noteq> 0 \<and> (0 :: int) < 3
   \<and> whisper_wrapper_transcribe example_platform (- 7, example_segments) 1
       (Some example_audio) 3 None 0 0 initial_wrapper_world =
       (None,
        \<lparr>engine_trace =
           [Whisper_full 1 (wrapper_params example_platform None 0 0) example_audio 3],
         g_last_error = ''Transcription failed with code: -7''\<rparr>)"
proof -
  have h1: "(-7 :: int) \<noteq> 0" and h2: "(1 :: handle) \<noteq> 0" and h3: "(0 :: int) < 3"
    by simp_all
  have code: "to_string_int (- 7) = ''-7''"
    by (simp add: to_string_int_def decimal.simps digit_char_def)
  show ?thesis
    using h1 h2 h3
      transcribe_engine_failure [OF h1 h2 h3, of example_platform example_segments
        example_audio None 0 0 initial_wrapper_world 7 "''en''" 0 initial_jni_world]
    by (simp add: whisper_wrapper_transcribe_def set_error_def initial_wrapper_world_def
          Let_def code)
qed

text \<open>
  C5 as stated fails on the mobile variant: on the engine's code \<open>-7\<close> it returns the empty
  string, not the null reference, and the code goes to the log.
\<close>

theorem transcribe_engine_failure_counterexample:
  "transcribeAudio example_platform (- 7, example_segments) 7 1 (Some example_audio)
     (Some ''en'') 0 initial_jni_world =
     (Jni_returned (Some ''''),
      \<lparr>engine_trace =
         [Whisper_full 1 (jni_params example_platform ''en'' 0 0) example_audio 3],
       logcat = [(ANDROID_LOG_INFO, ''Transcribing 3 samples''),
                 (ANDROID_LOG_ERROR, ''Transcription failed with code: -7'')]\<rparr>)
   \<and> Jni_returned (Some '''') \<noteq> Jni_returned None"
  by (simp add: transcribeAudio_def NewStringUTF_def LOGI_def LOGE_def initial_jni_world_def
        example_audio_def to_string_int_def decimal.simps digit_char_def Let_def)

text \<open>
  C7, as amended. For a segment whose two times are at most 1801439850948198 centiseconds
  in size, the start and end fields are the times multiplied by ten, written in decimal
  with six zeros after the point.
\<close>

theorem segment_times_milliseconds:
  assumes "\<bar>sint (seg_t0 s)\<bar> \<le> 1801439850948198"
    and "\<bar>sint (seg_t1 s)\<bar> \<le> 1801439850948198"
  shows \<open>times_ten (int64_to_double (seg_t0 s)) = sint (seg_t0 s) * 10
         \<and> times_ten (int64_to_double (seg_t1 s)) = sint (seg_t1 s) * 10
         \<and> segment_object s =
             ''{"text":"'' @ (case seg_text s of None \<Rightarrow> [] | Some p \<Rightarrow> escape_loop p)
             @ ''","start":'' @ to_string_int (sint (seg_t0 s) * 10) @ ''.000000''
             @ '',"end":'' @ to_string_int (sint (seg_t1 s) * 10) @ ''.000000'' @ ''}''\<close>
  using times_ten_exact [OF assms(1)] times_ten_exact [OF assms(2)]
  by (simp add: segment_object_def append_object_def to_string_double_int)

theorem segment_times_milliseconds_witness:
  \<open>\<bar>sint (seg_t0 \<lparr>seg_text = Some ''ok'', seg_t0 = 150, seg_t1 = 1801439850948198\<rparr>)\<bar>
     \<le> 1801439850948198
   \<and> \<bar>sint (seg_t1 \<lparr>seg_text = Some ''ok'', seg_t0 = 150, seg_t1 = 1801439850948198\<rparr>)\<bar>
     \<le> 1801439850948198
   \<and> segment_object \<lparr>seg_text = Some ''ok'', seg_t0 = 150, seg_t1 = 1801439850948198\<rparr> =
       ''{"text":"ok","start":1500.000000,"end":18014398509481980.000000}''\<close>
proof -
  have h0: "\<bar>sint (seg_t0 \<lparr>seg_text = Some ''ok'', seg_t0 = 150,
                            seg_t1 = 1801439850948198\<rparr>)\<bar> \<le> 1801439850948198"
    by simp
  have h1: "\<bar>sint (seg_t1 \<lparr>seg_text = Some ''ok'', seg_t0 = 150,
                            seg_t1 = 1801439850948198\<rparr>)\<bar> \<le> 1801439850948198"
    by simp
  show ?thesis
    using h0 h1 segment_times_milliseconds [OF h0 h1]
    by (simp add: to_string_int_def decimal.simps digit_char_def escape_char_def)
qed

text \<open>
  C7 as stated fails at the next time: 1801439850948199 centiseconds times ten is
  18014398509481990, which is no double; the product is rounded to 18014398509481992 and
  that is what the field shows.
\<close>

theorem segment_times_milliseconds_counterexample:
  \<open>times_ten (int64_to_double 1801439850948199) = 18014398509481992
   \<and> times_ten (int64_to_double 1801439850948199) \<noteq> sint (1801439850948199 :: 64 word) * 10
   \<and> segment_object \<lparr>seg_text = Some ''ok'', seg_t0 = 1801439850948199, seg_t1 = 0\<rparr> =
       ''{"text":"ok","start":18014398509481992.000000,"end":0.000000}''\<close>
  by (simp add: segment_object_def append_object_def to_string_double_def times_ten_def
        int64_to_double_def round_double_def bit_count.simps decimal.simps digit_char_def
        escape_char_def Let_def)

text \<open>
  C8, as amended. When the desktop \<^verbatim>\<open>transcribe\<close> reaches the engine, it hands it the
  language \<open>en\<close> if its language argument is null and the argument itself otherwise. The
  mobile \<^verbatim>\<open>transcribeAudio\<close> hands a supplied language to the engine unchanged.
\<close>

theorem transcribe_language:
  assumes "ctx \<noteq> 0" and "0 < n_samples"
  shows "engine_trace (snd (whisper_wrapper_transcribe pf answer ctx (Some samples) n_samples
                              lang callback user_data w))
           = engine_trace w
             @ [Whisper_full ctx (wrapper_params pf lang callback user_data) samples n_samples]
         \<and> language (wrapper_params pf lang callback user_data)
           = (case lang of None \<Rightarrow> Some ''en'' | Some l \<Rightarrow> Some l)
         \<and> engine_trace (snd (transcribeAudio pf answer method_id ctx (Some samples) (Some l')
                                  progressCallback jw))
           = engine_trace jw
             @ [Whisper_full ctx
                  (jni_params pf l' progressCallback
                     (if progressCallback \<noteq> 0 then method_id else 0))
                  samples (int (length samples))]
         \<and> language (jni_params pf l' progressCallback
                       (if progressCallback \<noteq> 0 then method_id else 0)) = Some l'"
proof -
  have desktop: "engine_trace (snd (whisper_wrapper_transcribe pf answer ctx (Some samples)
                                      n_samples lang callback user_data w))
      = engine_trace w
        @ [Whisper_full ctx (wrapper_params pf lang callback user_data) samples n_samples]"
    using assms by (simp add: whisper_wrapper_transcribe_def set_error_def Let_def)
  have lang: "language (wrapper_params pf lang callback user_data)
      = (case lang of None \<Rightarrow> Some ''en'' | Some l \<Rightarrow> Some l)"
    by (cases lang) (simp_all add: wrapper_params_def Let_def)
  let ?params = "jni_params pf l' progressCallback (if progressCallback \<noteq> 0 then method_id else 0)"
  have mobile: "engine_trace (snd (transcribeAudio pf answer method_id ctx (Some samples)
                                     (Some l') progressCallback jw))
      = engine_trace jw @ [Whisper_full ctx ?params samples (int (length samples))]"
    using assms(1)
    by (simp add: transcribeAudio_def LOGI_def LOGE_def Let_def split: option.split)
  have "language ?params = Some l'"
    by (simp add: jni_params_def)
  with desktop lang mobile show ?thesis by simp
qed

theorem transcribe_language_witness:
  "(1 :: handle) \<noteq> 0 \<and> (0 :: int) < 3
   \<and> engine_trace (snd (whisper_wrapper_transcribe example_platform (0, example_segments) 1
                          (Some example_audio) 3 None 0 0 initial_wrapper_world))
       = [Whisper_full 1 (wrapper_params example_platform None 0 0) example_audio 3]
   \<and> language (wrapper_params example_platform None 0 0) = Some ''en''"
proof -
  have h1: "(1 :: handle) \<noteq> 0" and h2: "(0 :: int) < 3" by simp_all
  show ?thesis
    using h1 h2
      transcribe_language [OF h1 h2, of example_platform "(0, example_segments)"
        example_audio None 0 0 initial_wrapper_world 7 "''fr''" 0 initial_jni_world]
    by (simp add: initial_wrapper_world_def)
qed

text \<open>
  C8 as stated fails on the mobile variant: with a null language it gives the null
  reference to \<^verbatim>\<open>GetStringUTFChars\<close> and no engine call with the language \<open>en\<close> is made.
\<close>

theorem transcribe_language_counterexample:
  "transcribeAudio example_platform (0, example_segments) 7 1 (Some example_audio) None 0
     initial_jni_world =
     (Jni_undefined,
      \<lparr>engine_trace = [], logcat = [(ANDROID_LOG_INFO, ''Transcribing 3 samples'')]\<rparr>)"
  by (simp add: transcribeAudio_def LOGI_def initial_jni_world_def example_audio_def
        to_string_int_def decimal.simps digit_char_def Let_def)

text \<open>
  C9, as amended. For the same context, buffer, supplied language and engine answer, the
  two variants return the same string whenever the desktop variant returns one and no
  segment text is null. On a null context and on an engine code that is not zero they
  differ in the failure value, null on the desktop and the empty string on the mobile
  side, and in where the message goes, the last error on the desktop and the log on the
  mobile side; the words of the message are the same.
\<close>

theorem transcribe_variants:
  "(ctx \<noteq> 0 \<and> samples \<noteq> [] \<and> (\<forall>s \<in> set segs. seg_text s \<noteq> None) \<longrightarrow>
      fst (whisper_wrapper_transcribe pf (0, segs) ctx (Some samples) (int (length samples))
             (Some l) callback user_data w) = Some (json_array segs)
      \<and> fst (transcribeAudio pf (0, segs) method_id ctx (Some samples) (Some l)
               progressCallback jw) = Jni_returned (Some (json_array segs)))
   \<and> (fst (whisper_wrapper_transcribe pf answer 0 audio_data n_samples lang callback
              user_data w) = None
      \<and> g_last_error (snd (whisper_wrapper_transcribe pf answer 0 audio_data n_samples lang
                              callback user_data w)) = ''Context is null''
      \<and> fst (transcribeAudio pf answer method_id 0 audioData lang' progressCallback jw)
          = Jni_returned (Some '''')
      \<and> logcat (snd (transcribeAudio pf answer method_id 0 audioData lang' progressCallback
                        jw))
          = logcat jw @ [(ANDROID_LOG_ERROR, ''Context is null'')])
   \<and> (ctx \<noteq> 0 \<and> samples \<noteq> [] \<and> result \<noteq> 0 \<longrightarrow>
      fst (whisper_wrapper_transcribe pf (result, segs) ctx (Some samples)
             (int (length samples)) (Some l) callback user_data w) = None
      \<and> g_last_error (snd (whisper_wrapper_transcribe pf (result, segs) ctx (Some samples)
                              (int (length samples)) (Some l) callback user_data w))
          = ''Transcription failed with code: '' @ to_string_int result
      \<and> fst (transcribeAudio pf (result, segs) method_id ctx (Some samples) (Some l)
               progressCallback jw) = Jni_returned (Some '''')
      \<and> last (logcat (snd (transcribeAudio pf (result, segs) method_id ctx (Some samples)
                              (Some l) progressCallback jw)))
          = (ANDROID_LOG_ERROR, ''Transcription failed with code: '' @ to_string_int result))"
proof -
  have success: "ctx \<noteq> 0 \<and> samples \<noteq> [] \<and> (\<forall>s \<in> set segs. seg_text s \<noteq> None) \<longrightarrow>
      fst (whisper_wrapper_transcribe pf (0, segs) ctx (Some samples) (int (length samples))
             (Some l) callback user_data w) = Some (json_array segs)
      \<and> fst (transcribeAudio pf (0, segs) method_id ctx (Some samples) (Some l)
               progressCallback jw) = Jni_returned (Some (json_array segs))"
    by (simp add: whisper_wrapper_transcribe_def transcribeAudio_def NewStringUTF_def Let_def
          wrapper_loop_json_array jni_loop_json_array json_array_def)
  have null_context: "fst (whisper_wrapper_transcribe pf answer 0 audio_data n_samples lang
              callback user_data w) = None
      \<and> g_last_error (snd (whisper_wrapper_transcribe pf answer 0 audio_data n_samples lang
                              callback user_data w)) = ''Context is null''
      \<and> fst (transcribeAudio pf answer method_id 0 audioData lang' progressCallback jw)
          = Jni_returned (Some '''')
      \<and> logcat (snd (transcribeAudio pf answer method_id 0 audioData lang' progressCallback
                        jw))
          = logcat jw @ [(ANDROID_LOG_ERROR, ''Context is null'')]"
    by (simp add: whisper_wrapper_transcribe_def set_error_def transcribeAudio_def
          NewStringUTF_def LOGE_def)
  have failure: "ctx \<noteq> 0 \<and> samples \<noteq> [] \<and> result \<noteq> 0 \<longrightarrow>
      fst (whisper_wrapper_transcribe pf (result, segs) ctx (Some samples)
             (int (length samples)) (Some l) callback user_data w) = None
      \<and> g_last_error (snd (whisper_wrapper_transcribe pf (result, segs) ctx (Some samples)
                              (int (length samples)) (Some l) callback user_data w))
          = ''Transcription failed with code: '' @ to_string_int result
      \<and> fst (transcribeAudio pf (result, segs) method_id ctx (Some samples) (Some l)
               progressCallback jw) = Jni_returned (Some '''')
      \<and> last (logcat (snd (transcribeAudio pf (result, segs) method_id ctx (Some samples)
                              (Some l) progressCallback jw)))
          = (ANDROID_LOG_ERROR, ''Transcription failed with code: '' @ to_string_int result)"
    by (simp add: whisper_wrapper_transcribe_def set_error_def transcribeAudio_def
          NewStringUTF_def LOGE_def LOGI_def Let_def)
  from success null_context failure show ?thesis by blast
qed

theorem transcribe_variants_witness:
  "(1 :: handle) \<noteq> 0 \<and> example_audio \<noteq> [] \<and> map seg_text example_segments \<noteq> []
   \<and> None \<notin> set (map seg_text example_segments)
   \<and> (1 :: int) \<noteq> 0
   \<and> fst (whisper_wrapper_transcribe example_platform (1, example_segments) 1
            (Some example_audio) (int (length example_audio)) (Some ''en'') 0 0
            initial_wrapper_world) = None
   \<and> fst (transcribeAudio example_platform (1, example_segments) 7 1 (Some example_audio)
            (Some ''en'') 0 initial_jni_world) = Jni_returned (Some '''')
   \<and> fst (transcribeAudio example_platform (0, example_segments) 7 1 (Some example_audio)
            (Some ''en'') 0 initial_jni_world)
     = Jni_returned
         (fst (whisper_wrapper_transcribe example_platform (0, example_segments) 1
                 (Some example_audio) (int (length example_audio)) (Some ''en'') 0 0
                 initial_wrapper_world))"
proof -
  have h: "(1 :: handle) \<noteq> 0 \<and> example_audio \<noteq> []
           \<and> (\<forall>s \<in> set example_segments. seg_text s \<noteq> None)"
    by (simp add: example_audio_def example_segments_def)
  have texts: "map seg_text example_segments \<noteq> []
               \<and> None \<notin> set (map seg_text example_segments)"
    by (simp add: example_segments_def)
  show ?thesis
    using h texts transcribe_variants [where ctx = 1 and samples = example_audio
            and segs = example_segments and pf = example_platform and l = "''en''"
            and callback = 0 and user_data = 0 and w = initial_wrapper_world
            and method_id = 7 and progressCallback = 0 and jw = initial_jni_world
            and answer = "(0, example_segments)" and audio_data = None and n_samples = 0
            and lang = None and audioData = None and lang' = None and result = 1]
    by simp
qed

text \<open>
  C9 as stated fails on a null context: the desktop variant returns null, the mobile
  variant a string.
\<close>

theorem transcribe_variants_counterexample:
  "fst (transcribeAudio example_platform (0, example_segments) 7 0 (Some example_audio)
          (Some ''en'') 0 initial_jni_world)
   \<noteq> Jni_returned
       (fst (whisper_wrapper_transcribe example_platform (0, example_segments) 0
               (Some example_audio) 3 (Some ''en'') 0 0 initial_wrapper_world))"
  by (simp add: transcribeAudio_def NewStringUTF_def whisper_wrapper_transcribe_def)

text \<open>
  C6, as amended. In the desktop wrapper, a call of \<^verbatim>\<open>init\<close> or \<^verbatim>\<open>transcribe\<close> that
  returns null has set the last error to its message, which is not empty; a call of them
  that does not return null and every call of \<^verbatim>\<open>isMultilingual\<close>, also on a null handle,
  leave the last error as it was. After any sequence of these calls \<^verbatim>\<open>getLastError\<close>
  returns the message of the most recent call that returned null, and what it returned
  before the sequence if there is none.
\<close>

theorem last_error_of_calls:
  "(is_null_return (fst (wrapper_step pf op w)) \<longrightarrow>
      g_last_error (snd (wrapper_step pf op w)) = failure_message op
      \<and> failure_message op \<noteq> [])
   \<and> (\<not> is_null_return (fst (wrapper_step pf op' w')) \<longrightarrow>
      g_last_error (snd (wrapper_step pf op' w')) = g_last_error w')
   \<and> g_last_error (snd (whisper_wrapper_is_multilingual answer ctx w'')) = g_last_error w''
   \<and> whisper_wrapper_get_last_error (snd (wrapper_run pf ops w0)) =
       Some (last_message (g_last_error w0) (zip ops (fst (wrapper_run pf ops w0))))"
  using failure_message_nonempty [of pf op w]
  by (simp add: wrapper_step_last_error is_multilingual_last_error wrapper_run_last_error
        whisper_wrapper_get_last_error_def)

theorem last_error_of_calls_witness:
  "is_null_return (fst (wrapper_step example_platform (Op_init 0 None) initial_wrapper_world))
   \<and> \<not> is_null_return
         (fst (wrapper_step example_platform (Op_init 5 (Some ''model.bin''))
                 initial_wrapper_world))
   \<and> whisper_wrapper_get_last_error
       (snd (wrapper_run example_platform
               [Op_init 0 None,
                Op_init 5 (Some ''model.bin''),
                Op_transcribe (- 7, []) 5 (Some example_audio) 3 None 0 0,
                Op_is_multilingual True 0,
                Op_transcribe (0, example_segments) 5 (Some example_audio) 3 None 0 0]
               initial_wrapper_world))
     = Some ''Transcription failed with code: -7''"
proof -
  have h1: "is_null_return
              (fst (wrapper_step example_platform (Op_init 0 None) initial_wrapper_world))"
    by (simp add: whisper_wrapper_init_def)
  have h2: "\<not> is_null_return
                (fst (wrapper_step example_platform (Op_init 5 (Some ''model.bin''))
                        initial_wrapper_world))"
    by (simp add: whisper_wrapper_init_def Let_def)
  have code: "to_string_int (- 7) = ''-7''"
    by (simp add: to_string_int_def decimal.simps digit_char_def)
  have rets: "fst (wrapper_run example_platform
               [Op_init 0 None,
                Op_init 5 (Some ''model.bin''),
                Op_transcribe (- 7, []) 5 (Some example_audio) 3 None 0 0,
                Op_is_multilingual True 0,
                Op_transcribe (0, example_segments) 5 (Some example_audio) 3 None 0 0]
               initial_wrapper_world)
       = [Ret_handle 0, Ret_handle 5, Ret_string None, Ret_int 0,
          Ret_string (Some (json_array example_segments))]"
    by (simp add: split_beta whisper_wrapper_init_def whisper_wrapper_transcribe_def
          whisper_wrapper_is_multilingual_def wrapper_loop_json_array Let_def)
  show ?thesis
    using h1 h2
      last_error_of_calls [where pf = example_platform and op = "Op_init 0 None"
        and w = initial_wrapper_world and op' = "Op_init 5 (Some ''model.bin'')"
        and w' = initial_wrapper_world and answer = True and ctx = 0
        and w'' = initial_wrapper_world and w0 = initial_wrapper_world
        and ops = "[Op_init 0 None,
                Op_init 5 (Some ''model.bin''),
                Op_transcribe (- 7, []) 5 (Some example_audio) 3 None 0 0,
                Op_is_multilingual True 0,
                Op_transcribe (0, example_segments) 5 (Some example_audio) 3 None 0 0]"]
    by (simp only: rets) (simp add: code)
qed

text \<open>
  C6 as stated fails. On the desktop, \<^verbatim>\<open>isMultilingual\<close> on a null handle returns its
  failure value \<open>0\<close> and records nothing: after a failed \<^verbatim>\<open>init\<close> the last error is still
  the message of \<^verbatim>\<open>init\<close>, and in a fresh process it is still empty. The mobile variant
  has no last error to overwrite: its failing \<^verbatim>\<open>transcribeAudio\<close> writes to the log only.
\<close>

theorem last_error_of_calls_counterexample:
  "wrapper_run example_platform [Op_init 0 None, Op_is_multilingual True 0]
     initial_wrapper_world =
     ([Ret_handle 0, Ret_int 0], \<lparr>engine_trace = [], g_last_error = ''Model path is null''\<rparr>)
   \<and> whisper_wrapper_is_multilingual True 0 initial_wrapper_world = (0, initial_wrapper_world)
   \<and> whisper_wrapper_get_last_error initial_wrapper_world = Some ''''
   \<and> transcribeAudio example_platform (0, []) 7 0 (Some example_audio) (Some ''en'') 0
       initial_jni_world =
       (Jni_returned (Some ''''),
        \<lparr>engine_trace = [], logcat = [(ANDROID_LOG_ERROR, ''Context is null'')]\<rparr>)"
  by (simp add: whisper_wrapper_init_def whisper_wrapper_is_multilingual_def set_error_def
        whisper_wrapper_get_last_error_def initial_wrapper_world_def transcribeAudio_def
        NewStringUTF_def LOGE_def initial_jni_world_def)

text \<open>
  C10, as amended. \<^verbatim>\<open>getLastError\<close> never returns a null pointer. In a fresh process,
  and after any sequence of calls in which neither \<^verbatim>\<open>init\<close> nor \<^verbatim>\<open>transcribe\<close> returned
  null, it returns the empty string; after a sequence in which a call of \<^verbatim>\<open>init\<close> or
  \<^verbatim>\<open>transcribe\<close> returned null it returns the message of the most recent such call, which
  is not empty. A call of \<^verbatim>\<open>isMultilingual\<close>, also the failing one on a null handle,
  leaves what it returns unchanged.
\<close>

theorem get_last_error_not_null:
  "whisper_wrapper_get_last_error w \<noteq> None
   \<and> whisper_wrapper_get_last_error initial_wrapper_world = Some ''''
   \<and> ((\<forall>r \<in> set (fst (wrapper_run pf ops initial_wrapper_world)). \<not> is_null_return r) \<longrightarrow>
        whisper_wrapper_get_last_error (snd (wrapper_run pf ops initial_wrapper_world))
          = Some '''')
   \<and> ((\<exists>r \<in> set (fst (wrapper_run pf ops' w')). is_null_return r) \<longrightarrow>
        whisper_wrapper_get_last_error (snd (wrapper_run pf ops' w'))
          = Some (last_message (g_last_error w') (zip ops' (fst (wrapper_run pf ops' w'))))
        \<and> last_message (g_last_error w') (zip ops' (fst (wrapper_run pf ops' w'))) \<noteq> [])
   \<and> whisper_wrapper_get_last_error (snd (whisper_wrapper_is_multilingual answer ctx w''))
       = whisper_wrapper_get_last_error w''"
proof -
  have unchanged: "whisper_wrapper_get_last_error
                     (snd (whisper_wrapper_is_multilingual answer ctx w''))
                   = whisper_wrapper_get_last_error w''"
    by (simp add: whisper_wrapper_get_last_error_def is_multilingual_last_error)
  have fresh: "g_last_error initial_wrapper_world = []"
    by (simp add: initial_wrapper_world_def)
  have quiet: "(\<forall>r \<in> set (fst (wrapper_run pf ops initial_wrapper_world)). \<not> is_null_return r)
      \<longrightarrow> g_last_error (snd (wrapper_run pf ops initial_wrapper_world)) = []"
    using wrapper_run_last_error [of pf ops initial_wrapper_world]
    by (simp add: last_message_unchanged fresh)
  have failed: "(\<exists>r \<in> set (fst (wrapper_run pf ops' w')). is_null_return r)
      \<longrightarrow> g_last_error (snd (wrapper_run pf ops' w'))
            = last_message (g_last_error w') (zip ops' (fst (wrapper_run pf ops' w')))
          \<and> last_message (g_last_error w') (zip ops' (fst (wrapper_run pf ops' w'))) \<noteq> []"
    using wrapper_run_failed_nonempty [of pf ops' w'] wrapper_run_last_error [of pf ops' w']
    by auto
  from fresh quiet failed unchanged show ?thesis
    by (simp add: whisper_wrapper_get_last_error_def)
qed

theorem get_last_error_not_null_witness:
  "fst (wrapper_run example_platform
          [Op_is_multilingual True 0, Op_init 5 (Some ''model.bin'')]
          initial_wrapper_world) = [Ret_int 0, Ret_handle 5]
   \<and> whisper_wrapper_get_last_error
       (snd (wrapper_run example_platform
               [Op_is_multilingual True 0, Op_init 5 (Some ''model.bin'')]
               initial_wrapper_world)) = Some ''''
   \<and> fst (wrapper_run example_platform
            [Op_init 0 (Some ''model.bin''), Op_is_multilingual False 5]
            initial_wrapper_world) = [Ret_handle 0, Ret_int 0]
   \<and> whisper_wrapper_get_last_error
       (snd (wrapper_run example_platform
               [Op_init 0 (Some ''model.bin''), Op_is_multilingual False 5]
               initial_wrapper_world)) = Some ''Failed to load model from: model.bin''"
proof -
  have r1: "fst (wrapper_run example_platform
                  [Op_is_multilingual True 0, Op_init 5 (Some ''model.bin'')]
                  initial_wrapper_world) = [Ret_int 0, Ret_handle 5]"
    by (simp add: split_beta whisper_wrapper_init_def whisper_wrapper_is_multilingual_def
          Let_def)
  have r2: "fst (wrapper_run example_platform
                  [Op_init 0 (Some ''model.bin''), Op_is_multilingual False 5]
                  initial_wrapper_world) = [Ret_handle 0, Ret_int 0]"
    by (simp add: split_beta whisper_wrapper_init_def whisper_wrapper_is_multilingual_def
          Let_def)
  have h1: "\<forall>r \<in> set (fst (wrapper_run example_platform
                      [Op_is_multilingual True 0, Op_init 5 (Some ''model.bin'')]
                      initial_wrapper_world)). \<not> is_null_return r"
    by (simp only: r1) simp
  have h2: "\<exists>r \<in> set (fst (wrapper_run example_platform
                      [Op_init 0 (Some ''model.bin''), Op_is_multilingual False 5]
                      initial_wrapper_world)). is_null_return r"
    by (simp only: r2) simp
  have recorded: "whisper_wrapper_get_last_error
       (snd (wrapper_run example_platform
               [Op_init 0 (Some ''model.bin''), Op_is_multilingual False 5]
               initial_wrapper_world)) = Some ''Failed to load model from: model.bin''"
    by (simp add: split_beta whisper_wrapper_init_def whisper_wrapper_is_multilingual_def
          whisper_wrapper_get_last_error_def set_error_def Let_def)
  show ?thesis
    using r1 r2 h1 h2 recorded
      get_last_error_not_null [where pf = example_platform and w = initial_wrapper_world
        and ops = "[Op_is_multilingual True 0, Op_init 5 (Some ''model.bin'')]"
        and ops' = "[Op_init 0 (Some ''model.bin''), Op_is_multilingual False 5]"
        and w' = initial_wrapper_world]
    by blast
qed

text \<open>
  C10 as stated fails on the desktop: in a fresh process \<^verbatim>\<open>isMultilingual\<close> on a null
  handle fails, returning \<open>0\<close>, and records nothing, so after this failure
  \<^verbatim>\<open>getLastError\<close> returns the empty string and no message.
\<close>

theorem get_last_error_not_null_counterexample:
  "wrapper_run example_platform [Op_is_multilingual True 0] initial_wrapper_world =
     ([Ret_int 0], initial_wrapper_world)
   \<and> whisper_wrapper_get_last_error
       (snd (wrapper_run example_platform [Op_is_multilingual True 0] initial_wrapper_world))
     = Some ''''"
  by (simp add: whisper_wrapper_is_multilingual_def whisper_wrapper_get_last_error_def
        initial_wrapper_world_def)

end
